theory Spec2Isabelle
  imports Complex_Main "HOL-Library.Word"
begin

section \<open>Data model\<close>

text \<open>
  The relational schema of \<^verbatim>\<open>models.py\<close>.  Primary keys are natural numbers, timestamps
  are instants counted in microseconds, nullable columns are options.  Of the descriptive
  columns of \<^verbatim>\<open>CrewMember\<close> only the name and the passport are kept: no operation below reads
  or writes any of the others.
\<close>

record crew_member =
  cm_id :: nat
  cm_name :: string
  passport :: string
  profile_token :: "string option"
  status :: int
  admin_notes :: "string option"
  created_at :: nat
  updated_at :: nat

text \<open>
  \<^verbatim>\<open>file_size\<close> is an integer column, but \<^verbatim>\<open>get_file_size_formatted\<close> stores the quotients of
  a division by \<^verbatim>\<open>1024.0\<close> in the attribute.  A division of a double by a power of two is exact
  (sizes below \<open>2 ^ 53\<close>, no underflow), so a rational holds every value the attribute takes.
\<close>

record crew_document =
  doc_id :: nat
  crew_id :: nat
  document_type :: string
  document_category :: string
  filename :: string
  original_filename :: string
  file_size :: "rat option"
  mime_type :: "string option"
  upload_date :: nat

text \<open>An uploaded file of a request (werkzeug's \<^verbatim>\<open>FileStorage\<close>).\<close>

record file_storage =
  fs_filename :: string
  content_type :: "string option"
  content :: "8 word list"

text \<open>
  What the handlers take from outside the program: the readings of \<^verbatim>\<open>datetime.utcnow\<close>, the
  draws of \<^verbatim>\<open>uuid.uuid4().hex\<close> and of \<^verbatim>\<open>secrets.token_bytes(32)\<close> (each indexed by the number
  of readings made so far), the library functions \<^verbatim>\<open>hashlib.sha256\<close> and
  \<^verbatim>\<open>werkzeug.utils.secure_filename\<close>, the configured \<^verbatim>\<open>UPLOAD_FOLDER\<close>, and whether the file
  system accepts a write to a path (\<^verbatim>\<open>os.makedirs\<close>, \<^verbatim>\<open>file.save\<close> and \<^verbatim>\<open>os.path.getsize\<close> raise
  \<^verbatim>\<open>OSError\<close> where it does not).
\<close>

record env =
  utc_clock :: "nat \<Rightarrow> nat"
  uuid4_hex :: "nat \<Rightarrow> string"
  token_bytes :: "nat \<Rightarrow> 8 word list"
  sha256 :: "string \<Rightarrow> 256 word"
  secure_filename :: "string \<Rightarrow> string"
  upload_folder :: string
  disk_accepts :: "string \<Rightarrow> bool"

text \<open>
  The state the handlers share: the two tables (rows in insertion order), the sequence of
  the document table, the files of the upload folder, the flashed messages of the session,
  and the number of readings taken from the environment.
\<close>

record world =
  crew_members :: "crew_member list"
  crew_documents :: "crew_document list"
  doc_seq :: nat
  disk :: "string \<rightharpoonup> 8 word list"
  flashes :: "(string \<times> string) list"
  tick :: nat

datatype endpoint = Index | Crew_profile nat | Crew_private_profile nat string

text \<open>
  The exceptions the modelled code can raise: a failed write to the upload folder, and the
  lookup of an attribute that the class of an object does not have (\<^verbatim>\<open>AttributeError\<close>, with the
  name of the class and of the attribute).
\<close>

datatype error = OSError | AttributeError string string

datatype response =
  Not_found | Unauthorized | Redirect endpoint | Render string | Server_error error

text \<open>
  The data of a file field: nothing, one \<^verbatim>\<open>FileStorage\<close>, or a list of them (an entry of the
  list may be missing).
\<close>

datatype files_arg = No_files | Single file_storage | Many "file_storage option list"

text \<open>
  A request: the login state of \<^verbatim>\<open>current_user\<close>, the form fields, the result of
  \<^verbatim>\<open>validate_on_submit\<close> of the form library, and the data of the file fields by field name.
\<close>

record request =
  is_authenticated :: bool
  form :: "(string \<times> string) list"
  submit_valid :: bool
  uploads :: "(string \<times> files_arg) list"

section \<open>Primitives of the framework\<close>

definition utcnow :: "env \<Rightarrow> world \<Rightarrow> nat \<times> world" where
  "utcnow E w = (utc_clock E (tick w), w\<lparr>tick := tick w + 1\<rparr>)"

definition flash :: "string \<Rightarrow> string \<Rightarrow> world \<Rightarrow> world" where
  "flash message category w = w\<lparr>flashes := flashes w @ [(message, category)]\<rparr>"

text \<open>
  \<^verbatim>\<open>CrewMember.query.get\<close> by primary key, and the \<^verbatim>\<open>UPDATE\<close> that \<^verbatim>\<open>db.session.commit\<close> issues for
  a changed \<^verbatim>\<open>CrewMember\<close> object.
\<close>

definition get_crew :: "world \<Rightarrow> nat \<Rightarrow> crew_member option" where
  "get_crew w cid = find (\<lambda>c. cm_id c = cid) (crew_members w)"

definition commit_crew :: "crew_member \<Rightarrow> world \<Rightarrow> world" where
  "commit_crew row w =
     w\<lparr>crew_members := map (\<lambda>c. if cm_id c = cm_id row then row else c) (crew_members w)\<rparr>"

definition form_get :: "request \<Rightarrow> string \<Rightarrow> string option" where
  "form_get rq k = map_of (form rq) k"

definition form_get_default :: "request \<Rightarrow> string \<Rightarrow> string \<Rightarrow> string" where
  "form_get_default rq k d = (case map_of (form rq) k of None \<Rightarrow> d | Some v \<Rightarrow> v)"

section \<open>Status workflow\<close>

text \<open>
  \<^verbatim>\<open>update_crew_status\<close> of \<^verbatim>\<open>routes.py\<close>, behind \<^verbatim>\<open>login_required\<close> and \<^verbatim>\<open>get_or_404\<close>.
\<close>

definition update_crew_status :: "env \<Rightarrow> request \<Rightarrow> nat \<Rightarrow> world \<Rightarrow> response \<times> world" where
  "update_crew_status E rq cid w =
     (if \<not> is_authenticated rq then (Unauthorized, w)
      else case get_crew w cid of
        None \<Rightarrow> (Not_found, w)
      | Some crew_member \<Rightarrow>
          let action = form_get rq ''action'';
              notes = form_get_default rq ''notes'' [];
              (crew_member, w) =
                (if action = Some ''approve'' then
                   (crew_member\<lparr>status := 3, admin_notes := Some notes\<rparr>,
                    flash ''Crew member approved successfully.'' ''success'' w)
                 else if action = Some ''reject'' then
                   (crew_member\<lparr>status := - 1, admin_notes := Some notes\<rparr>,
                    flash ''Crew member rejected.'' ''warning'' w)
                 else if action = Some ''flag'' then
                   (crew_member\<lparr>status := - 2, admin_notes := Some notes\<rparr>,
                    flash ''Crew member flagged for review.'' ''info'' w)
                 else (crew_member, w));
              (now, w) = utcnow E w;
              crew_member = crew_member\<lparr>updated_at := now\<rparr>
          in (Redirect (Crew_profile cid), commit_crew crew_member w))"

section \<open>Document store\<close>

text \<open>
  \<^verbatim>\<open>os.path.join\<close> on a relative second component, and the next draw of \<^verbatim>\<open>uuid.uuid4().hex\<close>.
\<close>

definition path_join :: "string \<Rightarrow> string \<Rightarrow> string" where
  "path_join a b = (if a = [] \<or> last a = CHR ''/'' then a @ b else a @ ''/'' @ b)"

definition uuid4 :: "env \<Rightarrow> world \<Rightarrow> string \<times> world" where
  "uuid4 E w = (uuid4_hex E (tick w), w\<lparr>tick := tick w + 1\<rparr>)"

text \<open>
  \<^verbatim>\<open>save_crew_document\<close> of \<^verbatim>\<open>utils.py\<close>.  The guard \<^verbatim>\<open>not file or not file.filename\<close> holds for a
  missing file and for one with an empty filename (a \<^verbatim>\<open>FileStorage\<close> is falsy exactly when its
  filename is).  \<^verbatim>\<open>os.path.splitext\<close> loses no character, so \<^verbatim>\<open>name\<close> followed by \<^verbatim>\<open>ext\<close> is the
  secured filename again.  A failed write raises before the record is built; \<^verbatim>\<open>add\<close> and
  \<^verbatim>\<open>commit\<close> give the row the next key of the sequence and the reading of the clock as its
  \<^verbatim>\<open>upload_date\<close>.
\<close>

definition save_crew_document ::
  "env \<Rightarrow> file_storage option \<Rightarrow> nat \<Rightarrow> string \<Rightarrow> string \<Rightarrow> world
     \<Rightarrow> (error + crew_document option) \<times> world" where
  "save_crew_document E file cid dtype dcategory w =
     (case file of
        None \<Rightarrow> (Inr None, w)
      | Some f \<Rightarrow>
          if fs_filename f = [] then (Inr None, w)
          else
            let fname = secure_filename E (fs_filename f);
                (hex, w) = uuid4 E w;
                unique_filename = ''crew_'' @ take 8 hex @ ''_'' @ fname;
                upload_path = path_join (upload_folder E) ''crew_documents'';
                file_path = path_join upload_path unique_filename
            in if \<not> disk_accepts E file_path then (Inl OSError, w)
               else
                 let w = w\<lparr>disk := (disk w)(file_path \<mapsto> content f)\<rparr>;
                     fsize = length (content f);
                     (now, w) = utcnow E w;
                     doc_record =
                       \<lparr>doc_id = doc_seq w + 1, crew_id = cid, document_type = dtype,
                        document_category = dcategory,
                        filename = ''crew_documents/'' @ unique_filename,
                        original_filename = fs_filename f,
                        file_size = Some (of_nat fsize),
                        mime_type =
                          (case content_type f of
                             None \<Rightarrow> Some ''application/octet-stream''
                           | Some c \<Rightarrow>
                               if c = [] then Some ''application/octet-stream'' else Some c),
                        upload_date = now\<rparr>
                 in (Inr (Some doc_record),
                     w\<lparr>crew_documents := crew_documents w @ [doc_record],
                       doc_seq := doc_seq w + 1\<rparr>))"

text \<open>
  \<^verbatim>\<open>save_multiple_crew_documents\<close>: the loop over the files, with the list of saved records as
  accumulator.  An exception of \<^verbatim>\<open>save_crew_document\<close> leaves the loop.
\<close>

fun save_files ::
  "env \<Rightarrow> file_storage option list \<Rightarrow> nat \<Rightarrow> string \<Rightarrow> string \<Rightarrow> crew_document list \<Rightarrow> world
     \<Rightarrow> (error + crew_document list) \<times> world" where
  "save_files E [] cid dtype dcategory saved_docs w = (Inr saved_docs, w)"
| "save_files E (file # files) cid dtype dcategory saved_docs w =
     (case file of
        None \<Rightarrow> save_files E files cid dtype dcategory saved_docs w
      | Some f \<Rightarrow>
          if fs_filename f \<noteq> [] then
            (case save_crew_document E file cid dtype dcategory w of
               (Inl e, w') \<Rightarrow> (Inl e, w')
             | (Inr None, w') \<Rightarrow> save_files E files cid dtype dcategory saved_docs w'
             | (Inr (Some doc_record), w') \<Rightarrow>
                 save_files E files cid dtype dcategory (saved_docs @ [doc_record]) w')
          else save_files E files cid dtype dcategory saved_docs w)"

text \<open>Python's truth value of the data of a file field.\<close>

fun files_truthy :: "files_arg \<Rightarrow> bool" where
  "files_truthy No_files = False"
| "files_truthy (Single f) = (fs_filename f \<noteq> [])"
| "files_truthy (Many fs) = (fs \<noteq> [])"

definition save_multiple_crew_documents ::
  "env \<Rightarrow> files_arg \<Rightarrow> nat \<Rightarrow> string \<Rightarrow> string \<Rightarrow> world
     \<Rightarrow> (error + crew_document list) \<times> world" where
  "save_multiple_crew_documents E files cid dtype dcategory w =
     (if \<not> files_truthy files then (Inr [], w)
      else
        let files = (case files of Many fs \<Rightarrow> fs | Single f \<Rightarrow> [Some f] | No_files \<Rightarrow> [])
        in save_files E files cid dtype dcategory [] w)"

text \<open>
  The queries of \<^verbatim>\<open>models.py\<close>: \<^verbatim>\<open>filter_by\<close> on the table, then \<^verbatim>\<open>order_by\<close> the upload date
  descending.  SQL leaves the order of rows with equal dates open; here the later insertion
  comes first.
\<close>

definition order_by_upload_date_desc :: "crew_document list \<Rightarrow> crew_document list" where
  "order_by_upload_date_desc ds = rev (sort_key upload_date ds)"

definition documents_of_type :: "world \<Rightarrow> nat \<Rightarrow> string \<Rightarrow> crew_document list" where
  "documents_of_type w cid dtype =
     order_by_upload_date_desc
       (filter (\<lambda>d. crew_id d = cid \<and> document_type d = dtype) (crew_documents w))"

definition get_documents_by_category :: "world \<Rightarrow> nat \<Rightarrow> string \<Rightarrow> crew_document list" where
  "get_documents_by_category w cid category_name =
     order_by_upload_date_desc
       (filter (\<lambda>d. crew_id d = cid \<and> document_category d = category_name) (crew_documents w))"

definition get_all_documents :: "world \<Rightarrow> nat \<Rightarrow> crew_document list" where
  "get_all_documents w cid =
     order_by_upload_date_desc (filter (\<lambda>d. crew_id d = cid) (crew_documents w))"

section \<open>Document catalog and completion evaluator\<close>

text \<open>
  An entry of the catalog is a dictionary with the keys \<^verbatim>\<open>type\<close>, \<^verbatim>\<open>name\<close> and \<^verbatim>\<open>required\<close>;
  \<^verbatim>\<open>get_document_categories\<close> adds the keys \<^verbatim>\<open>files\<close>, \<^verbatim>\<open>uploaded\<close>, \<^verbatim>\<open>status\<close> and \<^verbatim>\<open>count\<close> to it.
  The dictionary of the categories is the list of its items in insertion order.
\<close>

record doc_entry =
  entry_type :: string
  entry_name :: string
  required :: bool

record doc_info = doc_entry +
  files :: "crew_document list"
  uploaded :: bool
  entry_status :: string
  entry_count :: nat

definition catalog :: "(string \<times> string \<times> doc_entry list) list" where
  "catalog =
     [(''identity'', ''Identity Documents'',
        [\<lparr>entry_type = ''passport'', entry_name = ''Passport Copy'', required = True\<rparr>,
         \<lparr>entry_type = ''government_id'', entry_name = ''Government ID (Aadhaar / PAN / SSN)'',
          required = False\<rparr>,
         \<lparr>entry_type = ''photo'', entry_name = ''Photo (Passport Size)'', required = True\<rparr>]),
      (''medical'', ''Medical Documents'',
        [\<lparr>entry_type = ''medical_certificate'', entry_name = ''Medical Certificate'',
          required = True\<rparr>,
         \<lparr>entry_type = ''yellow_fever'', entry_name = ''Yellow Fever Certificate'',
          required = False\<rparr>]),
      (''professional'', ''Professional Documents'',
        [\<lparr>entry_type = ''cdc'', entry_name = ''CDC (Seaman Book)'', required = True\<rparr>,
         \<lparr>entry_type = ''coc_cop'', entry_name = ''COC/COP Certificate'', required = True\<rparr>,
         \<lparr>entry_type = ''stcw_certificates'', entry_name = ''STCW Certificates'',
          required = True\<rparr>,
         \<lparr>entry_type = ''gmdss_dce'', entry_name = ''GMDSS/DCE Certificate'',
          required = False\<rparr>]),
      (''other'', ''Other Documents'',
        [\<lparr>entry_type = ''resume'', entry_name = ''Resume/CV'', required = True\<rparr>,
         \<lparr>entry_type = ''sea_agreement'', entry_name = ''SEA Agreement'', required = False\<rparr>])]"

text \<open>
  The body of the inner loop of \<^verbatim>\<open>get_document_categories\<close>: the query for one entry and the
  four keys computed from it.
\<close>

definition check_entry :: "world \<Rightarrow> nat \<Rightarrow> doc_entry \<Rightarrow> doc_info" where
  "check_entry w self_id doc =
     (let doc_files = documents_of_type w self_id (entry_type doc);
          up = (length doc_files > 0)
      in doc_entry.extend doc
           (doc_info.fields doc_files up (if up then ''complete'' else ''missing'')
              (length doc_files)))"

definition get_document_categories ::
  "world \<Rightarrow> nat \<Rightarrow> (string \<times> string \<times> doc_info list) list" where
  "get_document_categories w self_id =
     map (\<lambda>(category_key, cname, docs). (category_key, cname, map (check_entry w self_id) docs))
       catalog"

definition get_required_documents :: "world \<Rightarrow> nat \<Rightarrow> doc_info list" where
  "get_required_documents w self_id =
     concat (map (\<lambda>(category_key, cname, docs). docs) (get_document_categories w self_id))"

text \<open>
  Python's floats are IEEE 754 doubles.  A double is modelled by the rational it denotes, and
  an operation by the exact result rounded to 53 significant bits, ties to even.  The
  exponent is not bounded: no value below is near the overflow or the subnormal range.
\<close>

fun bit_length :: "nat \<Rightarrow> nat" where
  "bit_length n = (if n = 0 then 0 else Suc (bit_length (n div 2)))"

declare bit_length.simps [simp del]

definition floor_log2 :: "rat \<Rightarrow> int" where
  "floor_log2 x =
     (if 1 \<le> x then int (bit_length (nat \<lfloor>x\<rfloor>)) - 1
      else - int (bit_length (nat (\<lceil>1 / x\<rceil> - 1))))"

definition round_half_even :: "rat \<Rightarrow> int" where
  "round_half_even q =
     (let f = \<lfloor>q\<rfloor>; r = q - of_int f
      in if r < 1 / 2 then f else if 1 / 2 < r then f + 1 else if even f then f else f + 1)"

definition pow2 :: "int \<Rightarrow> rat" where
  "pow2 e = (if 0 \<le> e then 2 ^ nat e else 1 / 2 ^ nat (- e))"

definition round_double :: "rat \<Rightarrow> rat" where
  "round_double x =
     (if x = 0 then 0
      else
        let a = \<bar>x\<bar>; e = floor_log2 a - 52; m = round_half_even (a / pow2 e)
        in sgn x * of_int m * pow2 e)"

text \<open>
  \<^verbatim>\<open>a / b\<close> on two integers (correctly rounded), the product of two floats, and \<^verbatim>\<open>int(x)\<close>, which
  truncates towards zero.
\<close>

definition py_truediv :: "nat \<Rightarrow> nat \<Rightarrow> rat" where
  "py_truediv a b = round_double (of_nat a / of_nat b)"

definition float_mul :: "rat \<Rightarrow> rat \<Rightarrow> rat" where
  "float_mul x y = round_double (x * y)"

definition py_int :: "rat \<Rightarrow> int" where
  "py_int x = (if 0 \<le> x then \<lfloor>x\<rfloor> else \<lceil>x\<rceil>)"

text \<open>
  \<^verbatim>\<open>get_profile_completion_percentage\<close>: the two lists collected over the categories, and the
  percentage computed from their lengths.  \<open>completion_of_categories\<close> is the body of the
  method after its first line, \<open>get_profile_completion_percentage\<close> the method.
\<close>

definition completion_of_categories :: "(string \<times> string \<times> doc_info list) list \<Rightarrow> int" where
  "completion_of_categories categories =
     (let docs = concat (map (\<lambda>(category_key, cname, ds). ds) categories);
          required_docs = filter required docs;
          uploaded_docs = filter uploaded required_docs
      in if required_docs = [] then 100
         else py_int (float_mul (py_truediv (length uploaded_docs) (length required_docs)) 100))"

definition get_profile_completion_percentage :: "world \<Rightarrow> nat \<Rightarrow> int" where
  "get_profile_completion_percentage w self_id =
     completion_of_categories (get_document_categories w self_id)"

definition is_profile_complete :: "world \<Rightarrow> nat \<Rightarrow> bool" where
  "is_profile_complete w self_id = (get_profile_completion_percentage w self_id = 100)"

section \<open>Display helper\<close>

text \<open>Decimal digits of a natural number, and \<^verbatim>\<open>format(x, '.1f')\<close> for a float \<open>x \<ge> 0\<close>.\<close>

fun show_nat :: "nat \<Rightarrow> string" where
  "show_nat n =
     (if n < 10 then [''0123456789'' ! n]
      else show_nat (n div 10) @ [''0123456789'' ! (n mod 10)])"

declare show_nat.simps [simp del]

definition format_1f :: "rat \<Rightarrow> string" where
  "format_1f x =
     (let n = nat (round_half_even (10 * x)) in show_nat (n div 10) @ ''.'' @ show_nat (n mod 10))"

text \<open>
  \<^verbatim>\<open>get_file_size_formatted\<close>: the loop over the units works on the attribute \<^verbatim>\<open>self.file_size\<close>
  itself, so the method returns the text together with the object as it leaves it.
\<close>

fun format_units :: "string list \<Rightarrow> rat \<Rightarrow> string \<times> rat" where
  "format_units [] sz = (format_1f sz @ '' TB'', sz)"
| "format_units (unit # units) sz =
     (if sz < 1024 then (format_1f sz @ '' '' @ unit, sz)
      else format_units units (sz / 1024))"

definition get_file_size_formatted :: "crew_document \<Rightarrow> string \<times> crew_document" where
  "get_file_size_formatted self =
     (case file_size self of
        None \<Rightarrow> (''Unknown size'', self)
      | Some sz \<Rightarrow>
          if sz = 0 then (''Unknown size'', self)
          else
            let (text, sz') = format_units [''B'', ''KB'', ''MB'', ''GB''] sz
            in (text, self\<lparr>file_size := Some sz'\<rparr>))"

section \<open>Profile token issuer\<close>

text \<open>\<^verbatim>\<open>bytes.hex\<close>, and \<^verbatim>\<open>hexdigest\<close> of a 256-bit digest: 64 lower-case hexadecimal digits.\<close>

definition hex_byte :: "8 word \<Rightarrow> string" where
  "hex_byte b = [''0123456789abcdef'' ! (unat b div 16), ''0123456789abcdef'' ! (unat b mod 16)]"

definition bytes_hex :: "8 word list \<Rightarrow> string" where
  "bytes_hex bs = concat (map hex_byte bs)"

definition hexdigest :: "256 word \<Rightarrow> string" where
  "hexdigest h = concat (map (\<lambda>i. hex_byte (ucast (drop_bit (8 * (31 - i)) h))) [0..<32])"

definition secrets_token_bytes :: "env \<Rightarrow> world \<Rightarrow> 8 word list \<times> world" where
  "secrets_token_bytes E w = (token_bytes E (tick w), w\<lparr>tick := tick w + 1\<rparr>)"

text \<open>
  The objects of the two model classes, and the names that the body of each class defines in
  \<^verbatim>\<open>models.py\<close>: its columns, its relationship (\<^verbatim>\<open>crew_member\<close>, with the \<^verbatim>\<open>backref\<close> \<^verbatim>\<open>documents\<close>
  on the other class) and its methods.  The base class \<^verbatim>\<open>db.Model\<close> defines none of the names
  looked up below.
\<close>

datatype object = Member crew_member | Document crew_document

fun class_name :: "object \<Rightarrow> string" where
  "class_name (Member m) = ''CrewMember''"
| "class_name (Document d) = ''CrewDocument''"

fun class_dict :: "object \<Rightarrow> string list" where
  "class_dict (Member m) =
     [''__tablename__'', ''id'', ''name'', ''rank'', ''passport'', ''nationality'',
      ''date_of_birth'', ''years_experience'', ''last_vessel_type'', ''availability_date'',
      ''available_port_city'', ''mobile_number'', ''email'', ''emergency_contact_name'',
      ''emergency_contact_phone'', ''emergency_contact_relationship'', ''passport_file'',
      ''government_id_file'', ''photo_file'', ''medical_certificate_file'', ''yellow_fever_file'',
      ''cdc_file'', ''coc_cop_file'', ''stcw_certificates_file'', ''gmdss_dce_file'',
      ''resume_file'', ''sea_agreement_file'', ''profile_token'', ''status'', ''admin_notes'',
      ''screening_notes'', ''created_at'', ''updated_at'', ''__repr__'', ''get_status_name'',
      ''get_status_class'', ''documents'']"
| "class_dict (Document d) =
     [''__tablename__'', ''id'', ''crew_id'', ''document_type'', ''document_category'',
      ''filename'', ''original_filename'', ''file_size'', ''mime_type'', ''upload_date'',
      ''crew_member'', ''__repr__'', ''get_file_size_formatted'', ''generate_profile_token'',
      ''get_document_categories'', ''get_required_documents'', ''get_documents_by_category'',
      ''get_all_documents'', ''get_profile_completion_percentage'', ''is_profile_complete'']"

definition has_attribute :: "object \<Rightarrow> string \<Rightarrow> bool" where
  "has_attribute obj a = (a \<in> set (class_dict obj))"

text \<open>
  \<^verbatim>\<open>generate_profile_token\<close>, a method of class \<^verbatim>\<open>CrewDocument\<close>.  Its first expression reads
  \<^verbatim>\<open>self.profile_token\<close>: on a \<^verbatim>\<open>CrewDocument\<close>, which has no such attribute, the read raises.  On
  an object with the columns \<^verbatim>\<open>id\<close>, \<^verbatim>\<open>passport\<close> and \<^verbatim>\<open>profile_token\<close> the body runs:
  \<^verbatim>\<open>not self.profile_token\<close> holds for \<^verbatim>\<open>None\<close> and for the empty string; the commit of the changed
  row also refreshes \<^verbatim>\<open>updated_at\<close>, the column's \<^verbatim>\<open>onupdate\<close>.  The function returns the value or
  the exception, and the object as it leaves it.
\<close>

definition generate_profile_token ::
  "env \<Rightarrow> object \<Rightarrow> world \<Rightarrow> (error + string option) \<times> object \<times> world" where
  "generate_profile_token E self w =
     (case self of
        Document d \<Rightarrow> (Inl (AttributeError (class_name self) ''profile_token''), self, w)
      | Member m \<Rightarrow>
          let (m, w) =
            (if profile_token m = None \<or> profile_token m = Some [] then
               let (random_bytes, w) = secrets_token_bytes E w;
                   token_data =
                     show_nat (cm_id m) @ ''_'' @ passport m @ ''_'' @ bytes_hex random_bytes;
                   m = m\<lparr>profile_token := Some (hexdigest (sha256 E token_data))\<rparr>;
                   (now, w) = utcnow E w;
                   m = m\<lparr>updated_at := now\<rparr>
               in (m, commit_crew m w)
             else (m, w))
          in (Inr (profile_token m), Member m, w))"

text \<open>
  The call \<^verbatim>\<open>obj.generate_profile_token()\<close>, as \<^verbatim>\<open>register_crew\<close> and \<^verbatim>\<open>generate_profile_link\<close> of
  \<^verbatim>\<open>routes.py\<close> make it on a \<^verbatim>\<open>CrewMember\<close>: the name is looked up in the class of the object,
  and the method runs only where the class has it.
\<close>

definition call_generate_profile_token ::
  "env \<Rightarrow> object \<Rightarrow> world \<Rightarrow> (error + string option) \<times> object \<times> world" where
  "call_generate_profile_token E obj w =
     (if has_attribute obj ''generate_profile_token'' then generate_profile_token E obj w
      else (Inl (AttributeError (class_name obj) ''generate_profile_token''), obj, w))"

section \<open>Token-gated profile page\<close>

text \<open>\<^verbatim>\<open>", ".join(xs)\<close> and the data of a file field of the submitted form.\<close>

fun join :: "string \<Rightarrow> string list \<Rightarrow> string" where
  "join sep [] = []"
| "join sep [x] = x"
| "join sep (x # y # ys) = x @ sep @ join sep (y # ys)"

definition field_data :: "request \<Rightarrow> string \<Rightarrow> files_arg" where
  "field_data rq field_name =
     (case map_of (uploads rq) field_name of None \<Rightarrow> No_files | Some d \<Rightarrow> d)"

text \<open>The dictionary \<^verbatim>\<open>document_categories\<close> of the handler: field name, category, name.\<close>

definition document_categories :: "(string \<times> string \<times> string) list" where
  "document_categories =
     [(''passport'', ''identity'', ''Passport Copy''),
      (''government_id'', ''identity'', ''Government ID''),
      (''photo'', ''identity'', ''Photo''),
      (''medical_certificate'', ''medical'', ''Medical Certificate''),
      (''yellow_fever'', ''medical'', ''Yellow Fever Certificate''),
      (''cdc'', ''professional'', ''CDC (Seaman Book)''),
      (''coc_cop'', ''professional'', ''COC/COP Certificate''),
      (''stcw_certificates'', ''professional'', ''STCW Certificates''),
      (''gmdss_dce'', ''professional'', ''GMDSS/DCE Certificate''),
      (''resume'', ''other'', ''Resume/CV''),
      (''sea_agreement'', ''other'', ''SEA Agreement'')]"

text \<open>The loop of the handler over the document fields, \<^verbatim>\<open>updated_docs\<close> as accumulator.\<close>

fun upload_fields ::
  "env \<Rightarrow> request \<Rightarrow> nat \<Rightarrow> (string \<times> string \<times> string) list \<Rightarrow> string list \<Rightarrow> world
     \<Rightarrow> (error + string list) \<times> world" where
  "upload_fields E rq cid [] updated_docs w = (Inr updated_docs, w)"
| "upload_fields E rq cid ((field_name, category, dname) # rest) updated_docs w =
     (let data = field_data rq field_name
      in if files_truthy data then
           (case save_multiple_crew_documents E data cid field_name category w of
              (Inl e, w') \<Rightarrow> (Inl e, w')
            | (Inr saved_docs, w') \<Rightarrow>
                if saved_docs \<noteq> [] then
                  let n = length saved_docs
                  in upload_fields E rq cid rest
                       (updated_docs @
                          [dname @ '' ('' @ show_nat n @ '' file'' @ (if n > 1 then ''s'' else [])
                             @ '')''])
                       w'
                else upload_fields E rq cid rest updated_docs w')
         else upload_fields E rq cid rest updated_docs w)"

text \<open>
  \<^verbatim>\<open>crew_private_profile\<close> of \<^verbatim>\<open>routes.py\<close>.  The URL rule gives the handler a crew id and a
  non-empty token.  An exception of the upload is the framework's error response.  The rule
  names no \<^verbatim>\<open>methods\<close>, so the framework hands the function no \<^verbatim>\<open>POST\<close> request, and
  \<^verbatim>\<open>validate_on_submit\<close> is false for the requests it gets; the function is modelled as written,
  for every request.
\<close>

definition crew_private_profile ::
  "env \<Rightarrow> request \<Rightarrow> nat \<Rightarrow> string \<Rightarrow> world \<Rightarrow> response \<times> world" where
  "crew_private_profile E rq cid token w =
     (case get_crew w cid of
        None \<Rightarrow> (Not_found, w)
      | Some crew_member \<Rightarrow>
          if profile_token crew_member = None \<or> profile_token crew_member = Some []
             \<or> profile_token crew_member \<noteq> Some token
          then (Redirect Index, flash ''Invalid or expired profile link.'' ''error'' w)
          else if submit_valid rq then
            (case upload_fields E rq (cm_id crew_member) document_categories [] w of
               (Inl e, w') \<Rightarrow> (Server_error e, w')
             | (Inr updated_docs, w') \<Rightarrow>
                 (Redirect (Crew_private_profile cid token),
                  if updated_docs \<noteq> [] then
                    let (now, w') = utcnow E w';
                        w' = commit_crew (crew_member\<lparr>updated_at := now\<rparr>) w'
                    in flash (''Successfully uploaded: '' @ join '', '' updated_docs) ''success'' w'
                  else flash ''No files were selected for upload.'' ''warning'' w'))
          else (Render ''crew_private_profile.html'', w))"

section \<open>Notions of the properties\<close>

text \<open>
  The seven required document types of the catalog, whether a crew member has a record of a
  type, and the number of required types that have one.
\<close>

definition required_types :: "string list" where
  "required_types = [''passport'', ''photo'', ''medical_certificate'', ''cdc'', ''coc_cop'',
     ''stcw_certificates'', ''resume'']"

definition has_record :: "world \<Rightarrow> nat \<Rightarrow> string \<Rightarrow> bool" where
  "has_record w cid t = (filter (\<lambda>d. crew_id d = cid \<and> document_type d = t) (crew_documents w) \<noteq> [])"

definition uploaded_required_count :: "world \<Rightarrow> nat \<Rightarrow> nat" where
  "uploaded_required_count w cid = length (filter (has_record w cid) required_types)"

definition catalog_entries :: "doc_entry list" where
  "catalog_entries = concat (map (\<lambda>(category_key, cname, ds). ds) catalog)"

text \<open>
  The path \<^verbatim>\<open>save_crew_document\<close> writes the file to, and the state of the store in which every
  row of the document table has its file in the upload folder (\<^verbatim>\<open>filename\<close> is relative to it,
  as \<^verbatim>\<open>uploaded_file\<close> serves it).
\<close>

definition document_path :: "env \<Rightarrow> world \<Rightarrow> file_storage \<Rightarrow> string" where
  "document_path E w f =
     path_join (path_join (upload_folder E) ''crew_documents'')
       (''crew_'' @ take 8 (uuid4_hex E (tick w)) @ ''_'' @ secure_filename E (fs_filename f))"

definition no_orphans :: "env \<Rightarrow> world \<Rightarrow> bool" where
  "no_orphans E w =
     list_all (\<lambda>d. disk w (path_join (upload_folder E) (filename d)) \<noteq> None) (crew_documents w)"




section \<open>Example data\<close>

text \<open>
  One environment (a clock that starts at 1000, a file system that accepts every write,
  stand-ins for the library functions), one crew member with a token and a world that holds
  only this crew member.
\<close>

definition env0 :: env where
  "env0 =
     \<lparr>utc_clock = (\<lambda>k. 1000 + k),
      uuid4_hex = (\<lambda>k. ''0123456789abcdef0123456789abcdef''),
      token_bytes = (\<lambda>k. replicate 32 0),
      sha256 = (\<lambda>s. of_nat (length s)),
      secure_filename = (\<lambda>s. s),
      upload_folder = ''uploads'',
      disk_accepts = (\<lambda>p. True)\<rparr>"

definition crew42 :: crew_member where
  "crew42 =
     \<lparr>cm_id = 42, cm_name = ''Ada'', passport = ''X1'', profile_token = Some ''xyz'',
      status = 0, admin_notes = Some ''old note'', created_at = 10, updated_at = 10\<rparr>"

definition world0 :: world where
  "world0 =
     \<lparr>crew_members = [crew42], crew_documents = [], doc_seq = 0, disk = Map.empty,
      flashes = [], tick = 0\<rparr>"

definition admin_post :: "(string \<times> string) list \<Rightarrow> request" where
  "admin_post kvs = \<lparr>is_authenticated = True, form = kvs, submit_valid = True, uploads = []\<rparr>"

text \<open>
  A document of crew member 42, a world in which this crew member has one record of each
  required type, and one in which the only record is of an optional type.
\<close>

definition doc42 :: "nat \<Rightarrow> string \<Rightarrow> string \<Rightarrow> nat \<Rightarrow> crew_document" where
  "doc42 n dtype dcategory t =
     \<lparr>doc_id = n, crew_id = 42, document_type = dtype, document_category = dcategory,
      filename = ''crew_documents/crew_01234567_scan.pdf'', original_filename = ''scan.pdf'',
      file_size = Some 2048, mime_type = Some ''application/pdf'', upload_date = t\<rparr>"

definition world_complete :: world where
  "world_complete =
     world0\<lparr>crew_documents :=
       [doc42 1 ''passport'' ''identity'' 100, doc42 2 ''photo'' ''identity'' 101,
        doc42 3 ''medical_certificate'' ''medical'' 102, doc42 4 ''cdc'' ''professional'' 103,
        doc42 5 ''coc_cop'' ''professional'' 104,
        doc42 6 ''stcw_certificates'' ''professional'' 105, doc42 7 ''resume'' ''other'' 106]\<rparr>"

definition world_optional :: world where
  "world_optional = world0\<lparr>crew_documents := [doc42 1 ''yellow_fever'' ''medical'' 100]\<rparr>"

text \<open>A request without login and without a submitted form, and a world without crew.\<close>

definition visitor_get :: request where
  "visitor_get = \<lparr>is_authenticated = False, form = [], submit_valid = False, uploads = []\<rparr>"

definition world_empty :: world where
  "world_empty = world0\<lparr>crew_members := []\<rparr>"

text \<open>An environment whose file system refuses every write, and an uploaded file.\<close>

definition env_full :: env where
  "env_full = env0\<lparr>disk_accepts := (\<lambda>p. False)\<rparr>"

definition scan_pdf :: file_storage where
  "scan_pdf =
     \<lparr>fs_filename = ''scan.pdf'', content_type = Some ''application/pdf'',
      content = [37, 80, 68, 70]\<rparr>"



section \<open>Properties of the crew table\<close>

lemma get_crew_id: "get_crew w cid = Some c \<Longrightarrow> cm_id c = cid"
  by (auto simp: get_crew_def find_Some_iff)

lemma find_replace:
  "find (\<lambda>c. cm_id c = cm_id row) xs = Some c \<Longrightarrow>
   find (\<lambda>c. cm_id c = cm_id row) (map (\<lambda>c. if cm_id c = cm_id row then row else c) xs)
     = Some row"
  by (induction xs) (auto split: if_splits)

lemma get_crew_commit:
  "get_crew w (cm_id row) = Some c \<Longrightarrow> get_crew (commit_crew row w) (cm_id row) = Some row"
  by (simp add: get_crew_def commit_crew_def find_replace)

lemma get_crew_flash [simp]: "get_crew (flash m k w) = get_crew w"
  by (rule ext) (simp add: get_crew_def flash_def)

lemma get_crew_tick [simp]: "get_crew (w\<lparr>tick := t\<rparr>) = get_crew w"
  by (rule ext) (simp add: get_crew_def)

lemma tick_flash [simp]: "tick (flash m k w) = tick w"
  by (simp add: flash_def)

section \<open>Status workflow: the admin actions\<close>

text \<open>
  C4.  For a crew member in any status, the admin action \<^verbatim>\<open>approve\<close> sets the status to 3,
  \<^verbatim>\<open>reject\<close> to -1 and \<^verbatim>\<open>flag\<close> to -2; the stored row is the old row with this status, with
  \<^verbatim>\<open>admin_notes\<close> replaced by the supplied note and with \<^verbatim>\<open>updated_at\<close> set to the reading of the
  clock.  Nothing is asked of the old status: the action is accepted from every state.
\<close>

theorem update_crew_status_transitions:
  assumes "is_authenticated rq" and "get_crew w cid = Some c"
    and "form_get rq ''action'' = Some a" and "a \<in> {''approve'', ''reject'', ''flag''}"
  shows "fst (update_crew_status E rq cid w) = Redirect (Crew_profile cid) \<and>
         get_crew (snd (update_crew_status E rq cid w)) cid =
           Some (c\<lparr>status := (if a = ''approve'' then 3 else if a = ''reject'' then - 1 else - 2),
                   admin_notes := Some (form_get_default rq ''notes'' []),
                   updated_at := utc_clock E (tick w)\<rparr>)"
proof -
  have id: "cm_id c = cid" using assms(2) by (rule get_crew_id)
  have g: "get_crew (commit_crew c' (w'\<lparr>tick := t\<rparr>)) cid = Some c'"
    if "get_crew w' cid = Some c" and "cm_id c' = cid" for c' w' t
    using that get_crew_commit [of "w'\<lparr>tick := t\<rparr>" c' c] by simp
  from assms(4) consider "a = ''approve''" | "a = ''reject''" | "a = ''flag''" by auto
  then show ?thesis
  proof cases
    case 1
    then show ?thesis using assms(1,2,3) id
      by (simp add: update_crew_status_def utcnow_def Let_def g)
  next
    case 2
    then show ?thesis using assms(1,2,3) id
      by (simp add: update_crew_status_def utcnow_def Let_def g)
  next
    case 3
    then show ?thesis using assms(1,2,3) id
      by (simp add: update_crew_status_def utcnow_def Let_def g)
  qed
qed

theorem update_crew_status_transitions_witness:
  "get_crew
     (snd (update_crew_status env0
             (admin_post [(''action'', ''flag''), (''notes'', ''check CDC'')]) 42 world0)) 42 =
     Some (crew42\<lparr>status := - 2, admin_notes := Some ''check CDC'', updated_at := 1000\<rparr>)"
  using update_crew_status_transitions
    [of "admin_post [(''action'', ''flag''), (''notes'', ''check CDC'')]" world0 42 crew42
        "''flag''" env0]
  by (simp add: admin_post_def world0_def crew42_def env0_def get_crew_def form_get_def
        form_get_default_def)

text \<open>
  C10.  A status update whose action is none of \<^verbatim>\<open>approve\<close>, \<^verbatim>\<open>reject\<close> and \<^verbatim>\<open>flag\<close> (or is
  missing) leaves the status and the notes of the crew member as they are, and still stores
  the row with \<^verbatim>\<open>updated_at\<close> set to the reading of the clock.
\<close>

theorem update_crew_status_other_action:
  assumes "is_authenticated rq" and "get_crew w cid = Some c"
    and "form_get rq ''action'' \<notin> {Some ''approve'', Some ''reject'', Some ''flag''}"
  shows "fst (update_crew_status E rq cid w) = Redirect (Crew_profile cid) \<and>
         get_crew (snd (update_crew_status E rq cid w)) cid =
           Some (c\<lparr>updated_at := utc_clock E (tick w)\<rparr>)"
proof -
  have id: "cm_id c = cid" using assms(2) by (rule get_crew_id)
  have g: "get_crew (commit_crew c' (w\<lparr>tick := t\<rparr>)) cid = Some c'"
    if "cm_id c' = cid" for c' t
    using that assms(2) get_crew_commit [of "w\<lparr>tick := t\<rparr>" c' c] by simp
  show ?thesis
    using assms id
    by (simp add: update_crew_status_def utcnow_def Let_def g)
qed

theorem update_crew_status_other_action_witness:
  "get_crew
     (snd (update_crew_status env0
             (admin_post [(''action'', ''verify''), (''notes'', ''n'')]) 42 world0)) 42 =
     Some (crew42\<lparr>updated_at := 1000\<rparr>)"
  using update_crew_status_other_action
    [of "admin_post [(''action'', ''verify''), (''notes'', ''n'')]" world0 42 crew42 env0]
  by (simp add: admin_post_def world0_def crew42_def env0_def get_crew_def form_get_def)

section \<open>Completion evaluator\<close>

text \<open>The model of the doubles agrees with Python on \<^verbatim>\<open>1 / 10\<close>.\<close>

lemma round_double_tenth: "round_double (1 / 10) = 3602879701896397 / 36028797018963968"
  by code_simp

lemma required_check_entry [simp]: "required (check_entry w cid e) = required e"
  by (simp add: check_entry_def Let_def doc_entry.extend_def)

lemma sort_key_Nil_iff [simp]: "(sort_key f xs = []) = (xs = [])"
  by (metis length_sort length_0_conv)

lemma uploaded_check_entry [simp]:
  "uploaded (check_entry w cid e) = has_record w cid (entry_type e)"
  by (simp add: check_entry_def Let_def doc_entry.extend_def doc_info.fields_def has_record_def documents_of_type_def
      order_by_upload_date_desc_def)

lemma categories_docs:
  "concat (map (\<lambda>(category_key, cname, ds). ds) (get_document_categories w cid)) =
   map (check_entry w cid) catalog_entries"
  by (simp add: get_document_categories_def catalog_entries_def map_concat o_def split_def)

lemma required_entries: "map entry_type (filter required catalog_entries) = required_types"
  by (simp add: catalog_entries_def catalog_def required_types_def)

lemma percentage_small: "k \<le> 7 \<Longrightarrow> py_int (float_mul (py_truediv k 7) 100) = int (100 * k div 7)"
proof -
  assume "k \<le> 7"
  then consider "k = 0" | "k = 1" | "k = 2" | "k = 3" | "k = 4" | "k = 5" | "k = 6" | "k = 7"
    by linarith
  then show ?thesis
    by cases (simp_all, code_simp+)
qed

lemma completion_eq:
  "get_profile_completion_percentage w cid = int (100 * uploaded_required_count w cid div 7)"
proof -
  let ?docs = "map (check_entry w cid) catalog_entries"
  have req: "filter required ?docs = map (check_entry w cid) (filter required catalog_entries)"
    by (simp add: filter_map o_def)
  have n: "length (filter required ?docs) = 7"
    unfolding req by (simp add: catalog_entries_def catalog_def)
  have "filter uploaded (filter required ?docs) =
      map (check_entry w cid)
        (filter (\<lambda>e. has_record w cid (entry_type e)) (filter required catalog_entries))"
    unfolding req by (simp add: filter_map o_def del: filter_filter)
  then have "length (filter uploaded (filter required ?docs)) =
      length (filter (has_record w cid) (map entry_type (filter required catalog_entries)))"
    by (simp add: filter_map o_def del: filter_filter)
  then have up: "length (filter uploaded (filter required ?docs)) = uploaded_required_count w cid"
    by (simp only: required_entries uploaded_required_count_def)
  have le: "uploaded_required_count w cid \<le> 7"
    using length_filter_le [of "has_record w cid" required_types]
    by (simp add: uploaded_required_count_def required_types_def)
  have ne: "filter required ?docs \<noteq> []"
  proof
    assume "filter required ?docs = []"
    then have "length (filter required ?docs) = 0" by (simp only: list.size)
    with n show False by (simp only:)
  qed
  have "completion_of_categories (get_document_categories w cid) =
      py_int (float_mul (py_truediv (length (filter uploaded (filter required ?docs)))
        (length (filter required ?docs))) 100)"
    unfolding completion_of_categories_def categories_docs Let_def using ne by (simp only: if_False)
  then show ?thesis
    unfolding get_profile_completion_percentage_def up n by (simp only: percentage_small [OF le])
qed

lemma floor_percent: "\<lfloor>(100 * of_nat k / of_nat n :: rat)\<rfloor> = int (100 * k div n)"
proof -
  have "(100 * of_nat k / of_nat n :: rat) = of_nat (100 * k) / of_nat n" by simp
  then show ?thesis by (simp only: floor_divide_of_nat_eq)
qed

text \<open>
  C1.  The completion percentage of a crew member is the floor of 100 times the number of
  required types with at least one record, divided by the number of required types; it lies
  between 0 and 100; it is 0 when no required type has a record and 100 when each of the
  seven required types has one; it depends on the records of the required types only, so
  records of other types never change it; and the computation yields 100 for categories
  without a required entry.
\<close>

theorem completion_percentage:
  "get_profile_completion_percentage w cid =
     \<lfloor>(100 * of_nat (uploaded_required_count w cid) / of_nat (length required_types) :: rat)\<rfloor>
   \<and> 0 \<le> get_profile_completion_percentage w cid
   \<and> get_profile_completion_percentage w cid \<le> 100
   \<and> ((\<forall>t \<in> set required_types. \<not> has_record w cid t) \<longrightarrow>
        get_profile_completion_percentage w cid = 0)
   \<and> ((\<forall>t \<in> set required_types. has_record w cid t) \<longrightarrow>
        get_profile_completion_percentage w cid = 100)
   \<and> ((\<forall>t \<in> set required_types. has_record w' cid' t = has_record w cid t) \<longrightarrow>
        get_profile_completion_percentage w' cid' = get_profile_completion_percentage w cid)
   \<and> (filter required (concat (map (\<lambda>(category_key, cname, ds). ds) cats)) = [] \<longrightarrow>
        completion_of_categories cats = 100)"
proof -
  let ?k = "uploaded_required_count w cid"
  have len: "length required_types = 7" by (simp add: required_types_def)
  have le: "?k \<le> 7"
    using length_filter_le [of "has_record w cid" required_types]
    by (simp only: uploaded_required_count_def len)
  have a: "get_profile_completion_percentage w cid =
      \<lfloor>(100 * of_nat ?k / of_nat (length required_types) :: rat)\<rfloor>"
    by (simp only: completion_eq floor_percent len)
  have b: "0 \<le> get_profile_completion_percentage w cid" by (simp only: completion_eq of_nat_0_le_iff)
  have c: "get_profile_completion_percentage w cid \<le> 100"
    using le by (simp add: completion_eq)
  have d: "get_profile_completion_percentage w cid = 0"
    if "\<forall>t \<in> set required_types. \<not> has_record w cid t"
  proof -
    from that have "filter (has_record w cid) required_types = []" by (simp add: filter_empty_conv)
    then have "?k = 0" by (simp add: uploaded_required_count_def)
    then show ?thesis by (simp add: completion_eq)
  qed
  have e: "get_profile_completion_percentage w cid = 100"
    if "\<forall>t \<in> set required_types. has_record w cid t"
  proof -
    from that have "filter (has_record w cid) required_types = required_types" by simp
    then have "?k = 7" by (simp add: uploaded_required_count_def len)
    then show ?thesis by (simp add: completion_eq)
  qed
  have f: "get_profile_completion_percentage w' cid' = get_profile_completion_percentage w cid"
    if "\<forall>t \<in> set required_types. has_record w' cid' t = has_record w cid t"
  proof -
    from that have "filter (has_record w' cid') required_types = filter (has_record w cid) required_types"
      by (simp cong: filter_cong)
    then show ?thesis by (simp add: completion_eq uploaded_required_count_def)
  qed
  have g: "completion_of_categories cats = 100"
    if "filter required (concat (map (\<lambda>(category_key, cname, ds). ds) cats)) = []"
    using that by (simp add: completion_of_categories_def Let_def)
  from a b c d e f g show ?thesis by blast
qed

theorem completion_percentage_witness:
  "get_profile_completion_percentage world0 42 = 0
   \<and> get_profile_completion_percentage world_complete 42 = 100
   \<and> get_profile_completion_percentage world_optional 42 = get_profile_completion_percentage world0 42
   \<and> completion_of_categories
        [(''medical'', ''Medical Documents'',
          [check_entry world_optional 42
             \<lparr>entry_type = ''yellow_fever'', entry_name = ''Yellow Fever Certificate'',
              required = False\<rparr>])] = 100"
proof -
  have none: "\<forall>t \<in> set required_types. \<not> has_record world0 42 t"
    by (simp add: required_types_def has_record_def world0_def)
  have all: "\<forall>t \<in> set required_types. has_record world_complete 42 t"
    by (simp add: required_types_def has_record_def world_complete_def world0_def doc42_def)
  have same: "\<forall>t \<in> set required_types. has_record world_optional 42 t = has_record world0 42 t"
    by (simp add: required_types_def has_record_def world_optional_def world0_def doc42_def)
  have opt: "filter required (concat (map (\<lambda>(category_key, cname, ds). ds)
        [(''medical'', ''Medical Documents'',
          [check_entry world_optional 42
             \<lparr>entry_type = ''yellow_fever'', entry_name = ''Yellow Fever Certificate'',
              required = False\<rparr>])])) = []"
    by simp
  show ?thesis
    using none all same opt
      completion_percentage [of world0 42 world0 42 "[]"]
      completion_percentage [of world_complete 42 world0 42 "[]"]
      completion_percentage [of world0 42 world_optional 42
        "[(''medical'', ''Medical Documents'',
          [check_entry world_optional 42
             \<lparr>entry_type = ''yellow_fever'', entry_name = ''Yellow Fever Certificate'',
              required = False\<rparr>])]"]
    by blast
qed

section \<open>Profile token issuer: the method and its call\<close>

lemma hex_byte_length [simp]: "length (hex_byte b) = 2"
  by (simp add: hex_byte_def)

lemma hexdigest_length: "length (hexdigest h) = 64"
  by (simp add: hexdigest_def length_concat o_def sum_list_triv)

lemma hexdigest_nonempty: "hexdigest h \<noteq> []"
  using hexdigest_length [of h] by auto

text \<open>
  The body of the method, applied to an object that has the attributes it reads: a set token
  is returned and nothing changes; otherwise a token of 64 digits is stored and returned, and
  a second application returns the same token.
\<close>

lemma generate_profile_token_on_member:
  "(profile_token m = Some t \<and> t \<noteq> [] \<longrightarrow>
      generate_profile_token E (Member m) w = (Inr (Some t), Member m, w))
   \<and> (\<exists>t1 m1 w1. generate_profile_token E (Member m) w = (Inr (Some t1), Member m1, w1)
        \<and> t1 \<noteq> [] \<and> profile_token m1 = Some t1
        \<and> generate_profile_token E (Member m1) w1 = (Inr (Some t1), Member m1, w1))"
proof -
  have kept: "generate_profile_token E (Member s) v = (Inr (Some u), Member s, v)"
    if "profile_token s = Some u" and "u \<noteq> []" for s u v
    using that by (simp add: generate_profile_token_def)
  show ?thesis
  proof (cases "profile_token m = None \<or> profile_token m = Some []")
    case True
    then have "\<exists>h m1 w1. generate_profile_token E (Member m) w =
        (Inr (Some (hexdigest h)), Member m1, w1) \<and> profile_token m1 = Some (hexdigest h)"
      by (auto simp: generate_profile_token_def Let_def secrets_token_bytes_def utcnow_def
            split: prod.splits)
    then obtain h m1 w1 where
      g: "generate_profile_token E (Member m) w = (Inr (Some (hexdigest h)), Member m1, w1)"
      and t1: "profile_token m1 = Some (hexdigest h)"
      by blast
    from kept [OF t1 hexdigest_nonempty]
    have "generate_profile_token E (Member m1) w1 = (Inr (Some (hexdigest h)), Member m1, w1)" .
    with True g t1 hexdigest_nonempty [of h] show ?thesis by auto
  next
    case False
    then obtain u where u: "profile_token m = Some u" "u \<noteq> []" by auto
    from kept [OF u] u show ?thesis by auto
  qed
qed

text \<open>
  C2.  The call of \<^verbatim>\<open>generate_profile_token\<close> on a crew member returns no token: class
  \<^verbatim>\<open>CrewMember\<close> has no attribute of this name, the method being written in the body of class
  \<^verbatim>\<open>CrewDocument\<close>, so the call raises \<^verbatim>\<open>AttributeError\<close> and changes nothing.  On a document the
  method is found and raises at its first expression, a \<^verbatim>\<open>CrewDocument\<close> having no attribute
  \<^verbatim>\<open>profile_token\<close>.  For crew member 42, whose token is \<^verbatim>\<open>xyz\<close>, the call does not return this
  token.
\<close>

theorem generate_profile_token_raises:
  "call_generate_profile_token E (Member m) w =
     (Inl (AttributeError ''CrewMember'' ''generate_profile_token''), Member m, w)
   \<and> \<not> has_attribute (Member m) ''generate_profile_token''
   \<and> call_generate_profile_token E (Document d) w =
       (Inl (AttributeError ''CrewDocument'' ''profile_token''), Document d, w)
   \<and> has_attribute (Document d) ''generate_profile_token''
   \<and> \<not> has_attribute (Document d) ''profile_token''
   \<and> profile_token crew42 = Some ''xyz''
   \<and> fst (call_generate_profile_token env0 (Member crew42) world0) \<noteq> Inr (Some ''xyz'')"
  by (simp add: call_generate_profile_token_def generate_profile_token_def has_attribute_def
        crew42_def)

section \<open>Token-gated profile page: the denials\<close>

text \<open>
  C3, as stated, fails: crew member 42 has the token \<^verbatim>\<open>xyz\<close>; the request with the token
  \<^verbatim>\<open>abc\<close> is redirected to the index page with a flashed message, and the same request in a
  world without crew member 42 gets the 404 response.
\<close>

theorem token_denials_differ:
  "crew_private_profile env0 visitor_get 42 ''abc'' world0 =
     (Redirect Index, flash ''Invalid or expired profile link.'' ''error'' world0)
   \<and> crew_private_profile env0 visitor_get 42 ''abc'' world_empty = (Not_found, world_empty)
   \<and> fst (crew_private_profile env0 visitor_get 42 ''abc'' world0)
       \<noteq> fst (crew_private_profile env0 visitor_get 42 ''abc'' world_empty)"
  by (simp add: crew_private_profile_def get_crew_def world0_def world_empty_def crew42_def)

text \<open>
  C3, amended.  For the non-empty token of the URL rule, the request is denied (404 or
  the redirect to the index page) exactly when no crew member of that id has this token as
  its \<^verbatim>\<open>profile_token\<close>.  A wrong token for an existing crew member is answered by the redirect
  to the index page and the flashed message; an unknown crew id by the 404 response, with
  nothing flashed.
\<close>

theorem token_gate:
  assumes "token \<noteq> []"
  shows "(fst (crew_private_profile E rq cid token w) \<in> {Not_found, Redirect Index}) =
           (\<not> (\<exists>c. get_crew w cid = Some c \<and> profile_token c = Some token))
         \<and> (\<forall>c. get_crew w cid = Some c \<and> profile_token c \<noteq> Some token \<longrightarrow>
               crew_private_profile E rq cid token w =
                 (Redirect Index, flash ''Invalid or expired profile link.'' ''error'' w))
         \<and> (get_crew w cid = None \<longrightarrow> crew_private_profile E rq cid token w = (Not_found, w))"
  using assms
  by (auto simp: crew_private_profile_def split: option.splits prod.splits sum.splits)

theorem token_gate_witness:
  "fst (crew_private_profile env0 visitor_get 42 ''xyz'' world0) \<notin> {Not_found, Redirect Index}
   \<and> crew_private_profile env0 visitor_get 42 ''abc'' world0 =
       (Redirect Index, flash ''Invalid or expired profile link.'' ''error'' world0)
   \<and> crew_private_profile env0 visitor_get 7 ''abc'' world0 = (Not_found, world0)"
proof -
  have t: "''xyz'' \<noteq> []" "''abc'' \<noteq> []" by simp_all
  have g: "get_crew world0 42 = Some crew42" "get_crew world0 7 = None"
    by (simp_all add: get_crew_def world0_def crew42_def)
  have p: "profile_token crew42 = Some ''xyz''" by (simp add: crew42_def)
  show ?thesis
    using token_gate [OF t(1), of env0 visitor_get 42 world0]
      token_gate [OF t(2), of env0 visitor_get 42 world0]
      token_gate [OF t(2), of env0 visitor_get 7 world0] g p
    by auto
qed

section \<open>Document store: bytes first, then the record\<close>

lemma path_join_nested:
  "path_join (path_join a ''crew_documents'') u = path_join a (''crew_documents/'' @ u)"
  by (simp add: path_join_def)

lemma save_crew_document_refused:
  assumes "fs_filename f \<noteq> []" and "\<not> disk_accepts E (document_path E w f)"
  shows "save_crew_document E (Some f) cid t c w = (Inl OSError, w\<lparr>tick := tick w + 1\<rparr>)"
  using assms by (simp add: save_crew_document_def document_path_def uuid4_def Let_def)

lemma save_crew_document_accepted:
  assumes "fs_filename f \<noteq> []" and "disk_accepts E (document_path E w f)"
  shows "\<exists>d. save_crew_document E (Some f) cid t c w =
           (Inr (Some d),
            w\<lparr>disk := (disk w)(document_path E w f \<mapsto> content f),
              tick := tick w + 2,
              crew_documents := crew_documents w @ [d],
              doc_seq := doc_seq w + 1\<rparr>)
         \<and> doc_id d = doc_seq w + 1 \<and> crew_id d = cid \<and> document_type d = t
         \<and> document_category d = c \<and> original_filename d = fs_filename f
         \<and> file_size d = Some (of_nat (length (content f)))
         \<and> upload_date d = utc_clock E (tick w + 1)
         \<and> path_join (upload_folder E) (filename d) = document_path E w f"
  using assms
  by (simp add: save_crew_document_def document_path_def uuid4_def utcnow_def Let_def
        path_join_nested)

text \<open>
  C7.  For a file with a name, \<^verbatim>\<open>save_crew_document\<close> writes the bytes first.  Where the file
  system refuses the write, the call raises and the document table and the upload folder are
  as before: no row is written.  Where it accepts, the call returns the new record, which is
  the one row appended to the table, and the bytes are at the path of this record.  So a
  store in which every row has its file stays so.
\<close>

theorem save_crew_document_write_then_record:
  assumes "fs_filename f \<noteq> []"
  shows "(\<not> disk_accepts E (document_path E w f) \<longrightarrow>
            fst (save_crew_document E (Some f) cid t c w) = Inl OSError
            \<and> crew_documents (snd (save_crew_document E (Some f) cid t c w)) = crew_documents w
            \<and> disk (snd (save_crew_document E (Some f) cid t c w)) = disk w)
       \<and> (disk_accepts E (document_path E w f) \<longrightarrow>
            (\<exists>d. fst (save_crew_document E (Some f) cid t c w) = Inr (Some d)
               \<and> crew_documents (snd (save_crew_document E (Some f) cid t c w)) =
                   crew_documents w @ [d]
               \<and> path_join (upload_folder E) (filename d) = document_path E w f
               \<and> disk (snd (save_crew_document E (Some f) cid t c w)) (document_path E w f) =
                   Some (content f)))
       \<and> (no_orphans E w \<longrightarrow> no_orphans E (snd (save_crew_document E (Some f) cid t c w)))"
proof (cases "disk_accepts E (document_path E w f)")
  case False
  from save_crew_document_refused [OF assms False, of cid t c] False
  show ?thesis by (simp add: no_orphans_def)
next
  case True
  from save_crew_document_accepted [OF assms True, of cid t c]
  obtain d where d: "save_crew_document E (Some f) cid t c w =
           (Inr (Some d),
            w\<lparr>disk := (disk w)(document_path E w f \<mapsto> content f),
              tick := tick w + 2,
              crew_documents := crew_documents w @ [d],
              doc_seq := doc_seq w + 1\<rparr>)"
    and p: "path_join (upload_folder E) (filename d) = document_path E w f"
    by blast
  have "no_orphans E (snd (save_crew_document E (Some f) cid t c w))" if "no_orphans E w"
    using that d p by (auto simp: no_orphans_def list_all_iff)
  with True d p show ?thesis by simp
qed

theorem save_crew_document_write_then_record_witness:
  "fst (save_crew_document env_full (Some scan_pdf) 42 ''passport'' ''identity'' world0)
     = Inl OSError
   \<and> crew_documents
        (snd (save_crew_document env_full (Some scan_pdf) 42 ''passport'' ''identity'' world0))
       = crew_documents world0
   \<and> (\<exists>d. fst (save_crew_document env0 (Some scan_pdf) 42 ''passport'' ''identity'' world0)
             = Inr (Some d)
        \<and> crew_documents
             (snd (save_crew_document env0 (Some scan_pdf) 42 ''passport'' ''identity'' world0))
            = crew_documents world0 @ [d]
        \<and> path_join (upload_folder env0) (filename d) = document_path env0 world0 scan_pdf
        \<and> disk (snd (save_crew_document env0 (Some scan_pdf) 42 ''passport'' ''identity'' world0))
             (document_path env0 world0 scan_pdf) = Some (content scan_pdf))
   \<and> no_orphans env0
        (snd (save_crew_document env0 (Some scan_pdf) 42 ''passport'' ''identity'' world0))"
proof -
  have f: "fs_filename scan_pdf \<noteq> []" by (simp add: scan_pdf_def)
  have yes: "disk_accepts env0 (document_path env0 world0 scan_pdf)"
    by (simp add: env0_def)
  have no: "\<not> disk_accepts env_full (document_path env_full world0 scan_pdf)"
    by (simp add: env0_def env_full_def)
  have n: "no_orphans env0 world0" by (simp add: no_orphans_def world0_def)
  show ?thesis
    using yes no n
      save_crew_document_write_then_record
        [OF f, of env_full world0 42 "''passport''" "''identity''"]
      save_crew_document_write_then_record
        [OF f, of env0 world0 42 "''passport''" "''identity''"]
    by blast
qed

section \<open>Document store: append-only, listed most recent first\<close>

lemma save_crew_document_Some:
  assumes "save_crew_document E fl cid t c w = (Inr (Some d), w')"
  shows "crew_documents w' = crew_documents w @ [d] \<and> doc_seq w' = doc_seq w + 1
         \<and> doc_id d = doc_seq w + 1 \<and> crew_id d = cid \<and> document_type d = t"
proof (cases fl)
  case None
  with assms show ?thesis by (simp add: save_crew_document_def)
next
  case (Some f)
  show ?thesis
  proof (cases "fs_filename f \<noteq> [] \<and> disk_accepts E (document_path E w f)")
    case True
    with save_crew_document_accepted [of f E w cid t c] assms Some show ?thesis by auto
  next
    case False
    with assms Some save_crew_document_refused [of f E w cid t c] show ?thesis
      by (cases "fs_filename f = []") (auto simp: save_crew_document_def)
  qed
qed

lemma documents_of_type_desc:
  "sorted_wrt (\<lambda>a b. upload_date b \<le> upload_date a) (documents_of_type w cid t)"
proof -
  have "sorted_wrt (\<lambda>a b. upload_date a \<le> upload_date b) (sort_key upload_date xs)"
    for xs :: "crew_document list"
    using sorted_sort_key [of upload_date xs] by (simp only: sorted_map)
  then show ?thesis
    by (simp add: documents_of_type_def order_by_upload_date_desc_def sorted_wrt_rev)
qed

lemma set_documents_of_type:
  "set (documents_of_type w cid t) =
     {d \<in> set (crew_documents w). crew_id d = cid \<and> document_type d = t}"
  by (auto simp: documents_of_type_def order_by_upload_date_desc_def)

lemma length_documents_of_type:
  "length (documents_of_type w cid t) =
     length (filter (\<lambda>d. crew_id d = cid \<and> document_type d = t) (crew_documents w))"
  by (simp add: documents_of_type_def order_by_upload_date_desc_def)

text \<open>
  C8.  Two successful uploads of the same document type for one crew member create two
  records with different keys; the table is the old table with the two records appended, so
  no earlier row is changed or replaced; the query by type returns both, two more rows than
  before, in descending order of the upload date.
\<close>

theorem same_type_twice:
  assumes "save_crew_document E (Some f1) cid t c1 w = (Inr (Some d1), w1)"
    and "save_crew_document E (Some f2) cid t c2 w1 = (Inr (Some d2), w2)"
  shows "d1 \<noteq> d2 \<and> doc_id d1 \<noteq> doc_id d2
       \<and> crew_documents w2 = crew_documents w @ [d1, d2]
       \<and> d1 \<in> set (documents_of_type w2 cid t) \<and> d2 \<in> set (documents_of_type w2 cid t)
       \<and> length (documents_of_type w2 cid t) = length (documents_of_type w cid t) + 2
       \<and> sorted_wrt (\<lambda>a b. upload_date b \<le> upload_date a) (documents_of_type w2 cid t)"
proof -
  note a = save_crew_document_Some [OF assms(1)]
  note b = save_crew_document_Some [OF assms(2)]
  from a b have ids: "doc_id d1 \<noteq> doc_id d2" by simp
  then have ne: "d1 \<noteq> d2" by auto
  from a b have docs: "crew_documents w2 = crew_documents w @ [d1, d2]" by simp
  from a b docs have mem: "d1 \<in> set (documents_of_type w2 cid t)"
    "d2 \<in> set (documents_of_type w2 cid t)"
    by (simp_all add: set_documents_of_type)
  from a b docs have len:
    "length (documents_of_type w2 cid t) = length (documents_of_type w cid t) + 2"
    by (simp add: length_documents_of_type)
  from ids ne docs mem len documents_of_type_desc [of w2 cid t] show ?thesis by blast
qed

theorem same_type_twice_witness:
  "\<exists>d1 w1 d2 w2.
     save_crew_document env0 (Some scan_pdf) 42 ''passport'' ''identity'' world0
       = (Inr (Some d1), w1)
     \<and> save_crew_document env0 (Some scan_pdf) 42 ''passport'' ''identity'' w1
         = (Inr (Some d2), w2)
     \<and> d1 \<noteq> d2
     \<and> crew_documents w2 = crew_documents world0 @ [d1, d2]
     \<and> d1 \<in> set (documents_of_type w2 42 ''passport'')
     \<and> d2 \<in> set (documents_of_type w2 42 ''passport'')
     \<and> sorted_wrt (\<lambda>a b. upload_date b \<le> upload_date a)
          (documents_of_type w2 42 ''passport'')"
proof -
  have f: "fs_filename scan_pdf \<noteq> []" by (simp add: scan_pdf_def)
  have yes: "disk_accepts env0 p" for p by (simp add: env0_def)
  from save_crew_document_accepted
    [OF f yes, where w = world0 and cid = 42 and t = "''passport''" and c = "''identity''"]
  obtain d1 w1 where
    1: "save_crew_document env0 (Some scan_pdf) 42 ''passport'' ''identity'' world0
          = (Inr (Some d1), w1)"
    by blast
  from save_crew_document_accepted
    [OF f yes, where w = w1 and cid = 42 and t = "''passport''" and c = "''identity''"]
  obtain d2 w2 where
    2: "save_crew_document env0 (Some scan_pdf) 42 ''passport'' ''identity'' w1
          = (Inr (Some d2), w2)"
    by blast
  from same_type_twice [OF 1 2] 1 2 show ?thesis by blast
qed

section \<open>Document store: batches\<close>









section \<open>Document store: a missing or empty file\<close>





section \<open>Display helper: the file size\<close>

text \<open>
  C9.  \<^verbatim>\<open>get_file_size_formatted\<close> changes the document it formats: for a record of 2048 bytes
  it returns \<^verbatim>\<open>2.0 KB\<close> and leaves 2 in \<^verbatim>\<open>file_size\<close>, so that a second call returns \<^verbatim>\<open>2.0 B\<close>.
\<close>

theorem get_file_size_formatted_mutates:
  "get_file_size_formatted (doc42 1 ''passport'' ''identity'' 100) =
     (''2.0 KB'', (doc42 1 ''passport'' ''identity'' 100)\<lparr>file_size := Some 2\<rparr>)
   \<and> file_size (doc42 1 ''passport'' ''identity'' 100) = Some 2048
   \<and> fst (get_file_size_formatted (snd (get_file_size_formatted
       (doc42 1 ''passport'' ''identity'' 100)))) = ''2.0 B''"
  by code_simp

end
